theory Spec2Isabelle
  imports Main "HOL-Library.Sublist"
begin

section \<open>The movies API client\<close>

text \<open>
  The module \<^verbatim>\<open>movies-api/movies-api.server\<close>, which the overview component imports
  \<open>fetchMovies\<close> from. It wraps three GET requests against the movie database, narrows the untyped
  JSON answer with hand-written type guards and throws on everything else. The embedding
  keeps the source's names. Values typed \<^verbatim>\<open>unknown\<close> in the source are values of the
  type \<open>js\<close> below; parameters with a TypeScript type are modelled at that type
  (\<^verbatim>\<open>Endpoint\<close> as a datatype, \<^verbatim>\<open>string\<close> as \<open>string\<close>).
\<close>

subsection \<open>JavaScript values\<close>

text \<open>
  The values \<^verbatim>\<open>JSON.parse\<close> can produce, and \<^verbatim>\<open>undefined\<close> (an absent environment
  entry, a missing property). An object is the list of its entries in insertion order;
  a parsed object has distinct keys, and a property read takes the first entry of a key.
  The module does no arithmetic: of a number it takes the truth value and the type, and
  it prints it. A number is therefore given by its numeral in the canonical form, the
  string \<^verbatim>\<open>Number::toString\<close> returns for it: \<open>JNum ''7''\<close> is 7, \<open>JNum ''0.5''\<close>
  is 0.5, and the double that the JSON text \<^verbatim>\<open>1000000000000000000000\<close> parses to is
  \<open>JNum ''1e+21''\<close>. Both zeros have the numeral \<^verbatim>\<open>0\<close>.
\<close>

datatype js =
    JUndefined
  | JNull
  | JBool bool
  | JNum string
  | JStr string
  | JArr "js list"
  | JObj "(string \<times> js) list"

text \<open>\<^verbatim>\<open>!!v\<close>: of the numbers, the zeros and \<^verbatim>\<open>NaN\<close> are false.\<close>

fun truthy :: "js \<Rightarrow> bool" where
  "truthy JUndefined = False"
| "truthy JNull = False"
| "truthy (JBool b) = b"
| "truthy (JNum n) = (n \<noteq> ''0'' \<and> n \<noteq> ''NaN'')"
| "truthy (JStr s) = (s \<noteq> [])"
| "truthy (JArr xs) = True"
| "truthy (JObj kvs) = True"

text \<open>\<^verbatim>\<open>typeof v\<close>\<close>

fun typeof :: "js \<Rightarrow> string" where
  "typeof JUndefined = ''undefined''"
| "typeof JNull = ''object''"
| "typeof (JBool b) = ''boolean''"
| "typeof (JNum n) = ''number''"
| "typeof (JStr s) = ''string''"
| "typeof (JArr xs) = ''object''"
| "typeof (JObj kvs) = ''object''"

text \<open>\<^verbatim>\<open>Array.isArray(v)\<close>\<close>

fun isArray :: "js \<Rightarrow> bool" where
  "isArray (JArr xs) = True"
| "isArray _ = False"

text \<open>
  The decimal numeral of an array index or an array length (both below \<^verbatim>\<open>2**32\<close>), which
  is its canonical form.
\<close>

fun string_of_nat :: "nat \<Rightarrow> string" where
  "string_of_nat n =
     (if n < 10 then [''0123456789'' ! n]
      else string_of_nat (n div 10) @ [''0123456789'' ! (n mod 10)])"

declare string_of_nat.simps [simp del]

text \<open>
  \<^verbatim>\<open>key in v\<close>, for the own properties of \<open>v\<close>: the entries of an object, the
  indices and \<^verbatim>\<open>length\<close> of an array. The names inherited from \<^verbatim>\<open>Object.prototype\<close>
  and \<^verbatim>\<open>Array.prototype\<close> are left out; none of them is a key this module tests.
  On a primitive the operator throws a \<^verbatim>\<open>TypeError\<close>; the module applies it only
  behind \<^verbatim>\<open>!!v && typeof v === "object"\<close>, where the conjunction is false already.
\<close>

fun js_in :: "string \<Rightarrow> js \<Rightarrow> bool" where
  "js_in k (JObj kvs) = (k \<in> set (map fst kvs))"
| "js_in k (JArr xs) = (k = ''length'' \<or> k \<in> set (map string_of_nat [0..<length xs]))"
| "js_in k _ = False"

text \<open>
  The property read \<^verbatim>\<open>v.key\<close>: \<^verbatim>\<open>undefined\<close> where the property is missing. (On
  \<^verbatim>\<open>null\<close> and \<^verbatim>\<open>undefined\<close> the read throws; the module reads a property only of a
  value that passed \<^verbatim>\<open>key in v\<close>.)
\<close>

fun js_get :: "js \<Rightarrow> string \<Rightarrow> js" where
  "js_get (JObj kvs) k = (case map_of kvs k of Some v \<Rightarrow> v | None \<Rightarrow> JUndefined)"
| "js_get (JArr xs) k =
     (if k = ''length'' then JNum (string_of_nat (length xs))
      else case find (\<lambda>i. string_of_nat i = k) [0..<length xs] of
             Some i \<Rightarrow> xs ! i
           | None \<Rightarrow> JUndefined)"
| "js_get _ k = JUndefined"

text \<open>
  \<open>Error m\<close> is \<^verbatim>\<open>new Error(m)\<close> thrown by the module; \<open>InvariantFailed m\<close> is the error
  of \<^verbatim>\<open>invariant(false, m)\<close>; \<open>TypeError\<close> is the error of the runtime for a value that
  cannot be converted to a string or that lacks the method called on it; \<open>Rejected m\<close>
  is a rejection of \<^verbatim>\<open>fetch\<close> or of \<^verbatim>\<open>response.json()\<close>, which the module does not
  catch.
\<close>

datatype error =
    Error string
  | InvariantFailed string
  | TypeError
  | Rejected string

text \<open>
  The conversion a template literal \<^verbatim>\<open>`${v}`\<close> applies to \<open>v\<close>. An array prints its
  elements joined by commas, from left to right, with \<^verbatim>\<open>null\<close> and \<^verbatim>\<open>undefined\<close>
  elements empty. An object is converted by its \<^verbatim>\<open>toString\<close> method and, failing that,
  by \<^verbatim>\<open>valueOf\<close>: a parsed object inherits \<^verbatim>\<open>Object.prototype.toString\<close>, which gives
  \<^verbatim>\<open>[object Object]\<close>, unless it has an own property \<^verbatim>\<open>toString\<close>. That one is
  never a function, \<^verbatim>\<open>valueOf\<close> (own or inherited) yields no primitive either, and the
  conversion throws a \<^verbatim>\<open>TypeError\<close>.
\<close>

fun join_comma :: "string list \<Rightarrow> string" where
  "join_comma [] = []"
| "join_comma [s] = s"
| "join_comma (s # t # ss) = s @ '','' @ join_comma (t # ss)"

text \<open>The results of a list of conversions, or the first error among them.\<close>

fun all_or_first_error :: "(error + 'a) list \<Rightarrow> error + 'a list" where
  "all_or_first_error [] = Inr []"
| "all_or_first_error (Inl e # rs) = Inl e"
| "all_or_first_error (Inr x # rs) =
     (case all_or_first_error rs of Inl e \<Rightarrow> Inl e | Inr xs \<Rightarrow> Inr (x # xs))"

fun js_to_string :: "js \<Rightarrow> error + string" where
  "js_to_string JUndefined = Inr ''undefined''"
| "js_to_string JNull = Inr ''null''"
| "js_to_string (JBool b) = Inr (if b then ''true'' else ''false'')"
| "js_to_string (JNum n) = Inr n"
| "js_to_string (JStr s) = Inr s"
| "js_to_string (JArr xs) =
     (case all_or_first_error
             (map (\<lambda>x. case x of JUndefined \<Rightarrow> Inr [] | JNull \<Rightarrow> Inr [] | _ \<Rightarrow> js_to_string x) xs) of
        Inl e \<Rightarrow> Inl e
      | Inr ss \<Rightarrow> Inr (join_comma ss))"
| "js_to_string (JObj kvs) =
     (if ''toString'' \<in> set (map fst kvs) then Inl TypeError else Inr ''[object Object]'')"

subsection \<open>Effects\<close>

text \<open>
  What a call leaves behind: the URLs it requested and the lines it wrote with
  \<^verbatim>\<open>console.error\<close>, both in order.
\<close>

record world =
  requests :: "string list"
  console :: "(string \<times> js) list"

text \<open>
  The remote side: for a URL, the value of \<^verbatim>\<open>await (await fetch(url)).json()\<close>, or
  the rejection.
\<close>

type_synonym network = "string \<Rightarrow> error + js"

definition fetch_json :: "network \<Rightarrow> string \<Rightarrow> world \<Rightarrow> (error + js) \<times> world" where
  "fetch_json net url w = (net url, w\<lparr>requests := requests w @ [url]\<rparr>)"

definition console_error :: "string \<Rightarrow> js \<Rightarrow> world \<Rightarrow> world" where
  "console_error url data w = w\<lparr>console := console w @ [(url, data)]\<rparr>"

subsection \<open>Module initialisation\<close>

definition baseUrl :: string where
  "baseUrl = ''https://api.themoviedb.org/3''"

text \<open>\<^verbatim>\<open>invariant(condition, message)\<close> of tiny-invariant.\<close>

definition invariant :: "bool \<Rightarrow> string \<Rightarrow> error + unit" where
  "invariant condition message = (if condition then Inr () else Inl (InvariantFailed message))"

text \<open>
  The top-level statements of the module, from the environment entry
  \<^verbatim>\<open>VITE_MOVIES_API_KEY\<close> to the constant \<^verbatim>\<open>apiKey\<close>. A module whose initialisation
  throws exports nothing, so the fetch functions below take the \<^verbatim>\<open>apiKey\<close> of a
  successful initialisation as a parameter. The last branch is never taken.
\<close>

definition module_init :: "js \<Rightarrow> error + string" where
  "module_init envApiKey =
     (case invariant (truthy envApiKey \<and> typeof envApiKey = ''string'')
             ''VITE_MOVIES_API_KEY key is required'' of
        Inl e \<Rightarrow> Inl e
      | Inr u \<Rightarrow> (case envApiKey of
                   JStr s \<Rightarrow> Inr s
                 | _ \<Rightarrow> Inl (InvariantFailed ''VITE_MOVIES_API_KEY key is required'')))"

subsection \<open>Type guards\<close>

definition isErrorResponse :: "js \<Rightarrow> bool" where
  "isErrorResponse data \<longleftrightarrow>
     truthy data \<and>
     typeof data = ''object'' \<and>
     js_in ''status_code'' data \<and>
     js_in ''status_message'' data"

definition isMoviesData :: "js \<Rightarrow> bool" where
  "isMoviesData data \<longleftrightarrow>
     truthy data \<and>
     typeof data = ''object'' \<and>
     js_in ''results'' data \<and>
     isArray (js_get data ''results'')"

definition isMoviesAPIConfiguration :: "js \<Rightarrow> bool" where
  "isMoviesAPIConfiguration data \<longleftrightarrow>
     truthy data \<and>
     typeof data = ''object'' \<and>
     js_in ''images'' data \<and>
     truthy (js_get data ''images'') \<and>
     typeof (js_get data ''images'') = ''object'' \<and>
     js_in ''base_url'' (js_get data ''images'') \<and>
     typeof (js_get (js_get data ''images'') ''base_url'') = ''string''"

text \<open>
  \<^verbatim>\<open>xs.every(p)\<close>. On a value that is no array the call throws; the module calls
  it only behind \<^verbatim>\<open>Array.isArray\<close>, where the conjunction is false already.
\<close>

fun js_every :: "(js \<Rightarrow> bool) \<Rightarrow> js \<Rightarrow> bool" where
  "js_every p (JArr xs) = list_all p xs"
| "js_every p _ = False"

definition isLanguageArray :: "js \<Rightarrow> bool" where
  "isLanguageArray data \<longleftrightarrow>
     truthy data \<and>
     isArray data \<and>
     js_every (\<lambda>item.
         truthy item \<and>
         typeof item = ''object'' \<and>
         js_in ''english_name'' item \<and>
         js_in ''iso_639_1'' item \<and>
         js_in ''name'' item) data"

subsection \<open>The fetch functions\<close>

datatype Endpoint = popular | top_rated | upcoming | now_playing

fun endpoint_string :: "Endpoint \<Rightarrow> string" where
  "endpoint_string popular = ''popular''"
| "endpoint_string top_rated = ''top_rated''"
| "endpoint_string upcoming = ''upcoming''"
| "endpoint_string now_playing = ''now_playing''"

text \<open>
  \<^verbatim>\<open>`${data.status_code}: ${data.status_message}`\<close>, the two conversions in the order
  of the literal.
\<close>

definition status_line :: "js \<Rightarrow> error + string" where
  "status_line data =
     (case js_to_string (js_get data ''status_code'') of
        Inl e \<Rightarrow> Inl e
      | Inr code \<Rightarrow>
          (case js_to_string (js_get data ''status_message'') of
             Inl e \<Rightarrow> Inl e
           | Inr message \<Rightarrow> Inr (code @ '': '' @ message)))"

text \<open>
  What \<^verbatim>\<open>throw new Error(`${data.status_code}: ${data.status_message}`)\<close> throws: the
  error with the status line, or the \<^verbatim>\<open>TypeError\<close> of a conversion that failed before
  the error was made.
\<close>

definition throw_status_line :: "js \<Rightarrow> error" where
  "throw_status_line data = (case status_line data of Inl e \<Rightarrow> e | Inr message \<Rightarrow> Error message)"

text \<open>
  \<open>languageCode\<close> is \<open>None\<close> where the caller leaves the argument out (or passes
  \<^verbatim>\<open>undefined\<close>), and the default applies.
\<close>

definition fetchMovies ::
  "network \<Rightarrow> string \<Rightarrow> Endpoint \<Rightarrow> string option \<Rightarrow> world \<Rightarrow> (error + js) \<times> world" where
  "fetchMovies net apiKey endpoint languageCode_arg w =
     (let languageCode = (case languageCode_arg of None \<Rightarrow> ''en-US'' | Some l \<Rightarrow> l);
          url = baseUrl @ ''/movie/'' @ endpoint_string endpoint @ ''?api_key='' @ apiKey
                  @ ''&language='' @ languageCode;
          (response, w1) = fetch_json net url w
      in case response of
           Inl e \<Rightarrow> (Inl e, w1)
         | Inr data \<Rightarrow>
             if isErrorResponse data then (Inl (throw_status_line data), w1)
             else if \<not> isMoviesData data
               then (Inl (Error ''Unexpected response''), console_error url data w1)
             else (Inr (js_get data ''results''), w1))"

definition fetchConfiguration :: "network \<Rightarrow> string \<Rightarrow> world \<Rightarrow> (error + js) \<times> world" where
  "fetchConfiguration net apiKey w =
     (let (response, w1) = fetch_json net (baseUrl @ ''/configuration?api_key='' @ apiKey) w
      in case response of
           Inl e \<Rightarrow> (Inl e, w1)
         | Inr data \<Rightarrow>
             if isErrorResponse data then (Inl (throw_status_line data), w1)
             else if \<not> isMoviesAPIConfiguration data
               then (Inl (Error ''Unexpected response''), w1)
             else (Inr data, w1))"

text \<open>\<^verbatim>\<open>data.map(f)\<close>\<close>

fun js_map :: "(js \<Rightarrow> js) \<Rightarrow> js \<Rightarrow> error + js" where
  "js_map f (JArr xs) = Inr (JArr (map f xs))"
| "js_map f _ = Inl TypeError"

definition fetchLanguageCodes :: "network \<Rightarrow> string \<Rightarrow> world \<Rightarrow> (error + js) \<times> world" where
  "fetchLanguageCodes net apiKey w =
     (let (response, w1) =
            fetch_json net (baseUrl @ ''/configuration/languages?api_key='' @ apiKey) w
      in case response of
           Inl e \<Rightarrow> (Inl e, w1)
         | Inr data \<Rightarrow>
             if isErrorResponse data then (Inl (throw_status_line data), w1)
             else if \<not> isLanguageArray data
               then (Inl (Error ''Unexpected response''), w1)
             else (js_map (\<lambda>item. js_get item ''iso_639_1'') data, w1))"

subsection \<open>The shapes of the specification\<close>

text \<open>
  Second definitions, which follow the words of the specification and not the guards of
  the source, to compare the guards with. The error shape "has \<^verbatim>\<open>status_code\<close> +
  \<^verbatim>\<open>status_message\<close>"; the listing shape "has a \<^verbatim>\<open>results\<close> sequence"; the
  configuration shape is the "presence of an \<^verbatim>\<open>images.base_url\<close> string"; the language
  catalogue is "a sequence of objects each containing an English name, an ISO 639-1 code,
  and a localized name".
\<close>

fun spec_has_key :: "string \<Rightarrow> js \<Rightarrow> bool" where
  "spec_has_key k (JObj kvs) = (k \<in> set (map fst kvs))"
| "spec_has_key k v = False"

definition spec_error_shape :: "js \<Rightarrow> bool" where
  "spec_error_shape data \<longleftrightarrow>
     spec_has_key ''status_code'' data \<and> spec_has_key ''status_message'' data"

fun spec_listing_shape :: "js \<Rightarrow> bool" where
  "spec_listing_shape (JObj kvs) =
     (case map_of kvs ''results'' of Some (JArr xs) \<Rightarrow> True | _ \<Rightarrow> False)"
| "spec_listing_shape v = False"

fun spec_configuration_shape :: "js \<Rightarrow> bool" where
  "spec_configuration_shape (JObj kvs) =
     (case map_of kvs ''images'' of
        Some (JObj images) \<Rightarrow>
          (case map_of images ''base_url'' of Some (JStr s) \<Rightarrow> True | _ \<Rightarrow> False)
      | _ \<Rightarrow> False)"
| "spec_configuration_shape v = False"

fun spec_language_catalog :: "js \<Rightarrow> bool" where
  "spec_language_catalog (JArr xs) =
     list_all (\<lambda>item. spec_has_key ''english_name'' item \<and> spec_has_key ''iso_639_1'' item \<and>
                       spec_has_key ''name'' item) xs"
| "spec_language_catalog v = False"

text \<open>The three request URLs, as the template literals of the source build them.\<close>

abbreviation movies_url :: "string \<Rightarrow> Endpoint \<Rightarrow> string option \<Rightarrow> string" where
  "movies_url apiKey endpoint languageCode \<equiv>
     baseUrl @ ''/movie/'' @ endpoint_string endpoint @ ''?api_key='' @ apiKey
       @ ''&language='' @ (case languageCode of None \<Rightarrow> ''en-US'' | Some l \<Rightarrow> l)"

abbreviation configuration_url :: "string \<Rightarrow> string" where
  "configuration_url apiKey \<equiv> baseUrl @ ''/configuration?api_key='' @ apiKey"

abbreviation languages_url :: "string \<Rightarrow> string" where
  "languages_url apiKey \<equiv> baseUrl @ ''/configuration/languages?api_key='' @ apiKey"

section \<open>Properties\<close>

subsection \<open>Initialisation\<close>

text \<open>
  The initialisation succeeds exactly on a string that is not empty; the branch of
  \<open>module_init\<close> after a passed invariant with a value that is no string is dead.
\<close>

lemma module_init_cases:
  "module_init envApiKey =
     (case envApiKey of
        JStr s \<Rightarrow> if s = [] then Inl (InvariantFailed ''VITE_MOVIES_API_KEY key is required'')
                  else Inr s
      | _ \<Rightarrow> Inl (InvariantFailed ''VITE_MOVIES_API_KEY key is required''))"
  by (cases envApiKey) (simp_all add: module_init_def invariant_def)

subsection \<open>What each function does with a payload\<close>

lemma fetchMovies_payload:
  assumes "net (movies_url apiKey endpoint languageCode) = Inr data"
  shows "fetchMovies net apiKey endpoint languageCode w =
     (if isErrorResponse data
        then (Inl (throw_status_line data),
              w\<lparr>requests := requests w @ [movies_url apiKey endpoint languageCode]\<rparr>)
      else if \<not> isMoviesData data
        then (Inl (Error ''Unexpected response''),
              w\<lparr>requests := requests w @ [movies_url apiKey endpoint languageCode],
                console := console w @ [(movies_url apiKey endpoint languageCode, data)]\<rparr>)
      else (Inr (js_get data ''results''),
            w\<lparr>requests := requests w @ [movies_url apiKey endpoint languageCode]\<rparr>))"
  using assms by (simp add: fetchMovies_def fetch_json_def console_error_def Let_def)

lemma fetchConfiguration_payload:
  assumes "net (configuration_url apiKey) = Inr data"
  shows "fetchConfiguration net apiKey w =
     (if isErrorResponse data then Inl (throw_status_line data)
      else if \<not> isMoviesAPIConfiguration data then Inl (Error ''Unexpected response'')
      else Inr data,
      w\<lparr>requests := requests w @ [configuration_url apiKey]\<rparr>)"
  using assms by (simp add: fetchConfiguration_def fetch_json_def Let_def)

lemma fetchLanguageCodes_payload:
  assumes "net (languages_url apiKey) = Inr data"
  shows "fetchLanguageCodes net apiKey w =
     (if isErrorResponse data then Inl (throw_status_line data)
      else if \<not> isLanguageArray data then Inl (Error ''Unexpected response'')
      else js_map (\<lambda>item. js_get item ''iso_639_1'') data,
      w\<lparr>requests := requests w @ [languages_url apiKey]\<rparr>)"
  using assms by (simp add: fetchLanguageCodes_def fetch_json_def Let_def)

lemma key_of_map_of: "map_of kvs k = Some v \<Longrightarrow> k \<in> fst ` set kvs"
  by (auto dest!: map_of_SomeD intro: rev_image_eqI)

lemma isErrorResponse_JObj:
  "isErrorResponse (JObj kvs) \<longleftrightarrow>
     ''status_code'' \<in> fst ` set kvs \<and> ''status_message'' \<in> fst ` set kvs"
  by (simp add: isErrorResponse_def)

lemma js_get_JObj: "map_of kvs k = Some v \<Longrightarrow> js_get (JObj kvs) k = v"
  by simp

lemma isMoviesData_JObj:
  "map_of kvs ''results'' = Some (JArr xs) \<Longrightarrow> isMoviesData (JObj kvs)"
  by (auto simp: isMoviesData_def dest: map_of_SomeD intro: rev_image_eqI)

lemma string_of_nat_digits: "set (string_of_nat n) \<subseteq> set ''0123456789''"
proof (induction n rule: string_of_nat.induct)
  case (1 n)
  have m: "n mod 10 < 10" by simp
  have d: "\<And>k::nat. k < 10 \<Longrightarrow> ''0123456789'' ! k \<in> set ''0123456789''"
    by (rule nth_mem) simp
  show ?case
  proof (cases "n < 10")
    case True
    then show ?thesis
      using d [of n] by (subst string_of_nat.simps) simp
  next
    case False
    then show ?thesis
      using 1 d [OF m] by (subst string_of_nat.simps) simp
  qed
qed

lemma js_in_JArr_word:
  assumes "k \<noteq> ''length''" and "\<not> set k \<subseteq> set ''0123456789''"
  shows "\<not> js_in k (JArr xs)"
  using assms string_of_nat_digits by auto

lemma isErrorResponse_iff:
  "isErrorResponse data \<longleftrightarrow>
     (\<exists>kvs. data = JObj kvs \<and> ''status_code'' \<in> fst ` set kvs \<and> ''status_message'' \<in> fst ` set kvs)"
proof (cases data)
  case (JArr xs)
  have "\<not> js_in ''status_code'' (JArr xs)"
    by (rule js_in_JArr_word) simp_all
  with JArr show ?thesis by (simp add: isErrorResponse_def)
qed (simp_all add: isErrorResponse_def)

lemma sublist_first: "sublist a (a @ c @ b)"
  by (rule sublist_append_rightI)

lemma sublist_last: "sublist b (a @ c @ b)"
  using sublist_append_leftI [of b "a @ c"] by (simp only: append_assoc)

lemma requests_fetchMovies:
  "requests (snd (fetchMovies net apiKey endpoint languageCode w))
     = requests w @ [movies_url apiKey endpoint languageCode]"
  by (simp add: fetchMovies_def fetch_json_def console_error_def Let_def split: sum.split)

lemma requests_fetchConfiguration:
  "requests (snd (fetchConfiguration net apiKey w)) = requests w @ [configuration_url apiKey]"
  by (simp add: fetchConfiguration_def fetch_json_def split: sum.split)

lemma requests_fetchLanguageCodes:
  "requests (snd (fetchLanguageCodes net apiKey w)) = requests w @ [languages_url apiKey]"
  by (simp add: fetchLanguageCodes_def fetch_json_def split: sum.split)

text \<open>
  What each call writes to the console: \<open>fetchMovies\<close> writes one line, the URL and
  the payload, exactly when the payload is neither an error envelope nor a listing; the
  other two functions write nothing on any path.
\<close>

lemma console_fetchMovies:
  "console (snd (fetchMovies net apiKey endpoint languageCode w)) =
     (case net (movies_url apiKey endpoint languageCode) of
        Inl e \<Rightarrow> console w
      | Inr data \<Rightarrow>
          if \<not> isErrorResponse data \<and> \<not> isMoviesData data
          then console w @ [(movies_url apiKey endpoint languageCode, data)]
          else console w)"
  by (simp add: fetchMovies_def fetch_json_def console_error_def Let_def split: sum.split)

lemma console_fetchConfiguration:
  "console (snd (fetchConfiguration net apiKey w)) = console w"
  by (simp add: fetchConfiguration_def fetch_json_def split: sum.split)

lemma console_fetchLanguageCodes:
  "console (snd (fetchLanguageCodes net apiKey w)) = console w"
  by (simp add: fetchLanguageCodes_def fetch_json_def split: sum.split)

subsection \<open>The status line\<close>

text \<open>
  Every value but an object with an own \<^verbatim>\<open>toString\<close> property, alone or inside an
  array, has a string; in particular every number, string, boolean and \<^verbatim>\<open>null\<close>.
\<close>

lemma js_to_string_primitive:
  "js_to_string JUndefined = Inr ''undefined''"
  "js_to_string JNull = Inr ''null''"
  "js_to_string (JBool b) = Inr (if b then ''true'' else ''false'')"
  "js_to_string (JNum n) = Inr n"
  "js_to_string (JStr s) = Inr s"
  by simp_all

lemma all_or_first_error_Inl: "all_or_first_error rs = Inl e \<Longrightarrow> Inl e \<in> set rs"
  by (induction rs rule: all_or_first_error.induct) (auto split: sum.splits)

lemma js_to_string_error: "js_to_string v = Inl e \<Longrightarrow> e = TypeError"
proof (induction v rule: js_to_string.induct)
  case (6 xs)
  have "all_or_first_error
      (map (\<lambda>x. case x of JUndefined \<Rightarrow> Inr [] | JNull \<Rightarrow> Inr [] | _ \<Rightarrow> js_to_string x) xs) = Inl e"
    using "6.prems" by (simp split: sum.splits)
  then obtain y where y: "y \<in> set xs"
    and ye: "(case y of JUndefined \<Rightarrow> Inr [] | JNull \<Rightarrow> Inr [] | _ \<Rightarrow> js_to_string y) = Inl e"
    by (auto dest!: all_or_first_error_Inl)
  show ?case
  proof (cases y)
    case (JArr ys)
    with ye have "js_to_string y = Inl e" by (simp del: js_to_string.simps)
    with y JArr show ?thesis by (rule "6.IH"(4))
  next
    case (JObj kvs)
    with ye show ?thesis by (simp split: if_splits)
  qed (use ye in simp_all)
qed (simp_all split: if_splits)

lemma status_line_colon: "status_line data = Inr m \<Longrightarrow> CHR '':'' \<in> set m"
  by (auto simp: status_line_def split: sum.splits)

lemma throw_status_line_cases:
  "throw_status_line data = TypeError \<or> (\<exists>m. throw_status_line data = Error m)"
proof (cases "status_line data")
  case (Inl e)
  then have "e = TypeError"
    by (auto simp: status_line_def split: sum.splits dest: js_to_string_error)
  with Inl show ?thesis by (simp add: throw_status_line_def)
next
  case (Inr m)
  then show ?thesis by (simp add: throw_status_line_def)
qed

lemma throw_status_line_not_unexpected:
  "throw_status_line data \<noteq> Error ''Unexpected response''"
proof
  assume a: "throw_status_line data = Error ''Unexpected response''"
  show False
  proof (cases "status_line data")
    case (Inl e)
    then have "e = TypeError"
      by (auto simp: status_line_def split: sum.splits dest: js_to_string_error)
    with Inl a show False by (simp add: throw_status_line_def)
  next
    case (Inr m)
    with a have "m = ''Unexpected response''"
      by (simp add: throw_status_line_def)
    with status_line_colon [OF Inr] show False by simp
  qed
qed

subsection \<open>The guards against the shapes of the specification\<close>

lemma js_in_spec_has_key:
  assumes "k \<noteq> ''length''" and "\<not> set k \<subseteq> set ''0123456789''"
  shows "truthy v \<and> typeof v = ''object'' \<and> js_in k v \<longleftrightarrow> spec_has_key k v"
proof (cases v)
  case (JArr xs)
  with js_in_JArr_word [OF assms] show ?thesis by simp
qed simp_all

lemma isErrorResponse_spec: "isErrorResponse data = spec_error_shape data"
proof -
  have "truthy data \<and> typeof data = ''object'' \<and> js_in ''status_code'' data
          \<longleftrightarrow> spec_has_key ''status_code'' data"
    by (rule js_in_spec_has_key) simp_all
  moreover have "truthy data \<and> typeof data = ''object'' \<and> js_in ''status_message'' data
          \<longleftrightarrow> spec_has_key ''status_message'' data"
    by (rule js_in_spec_has_key) simp_all
  ultimately show ?thesis
    unfolding isErrorResponse_def spec_error_shape_def by blast
qed

lemma isMoviesData_spec: "isMoviesData data = spec_listing_shape data"
proof (cases data)
  case (JArr xs)
  have "\<not> js_in ''results'' (JArr xs)"
    by (rule js_in_JArr_word) simp_all
  with JArr show ?thesis by (simp add: isMoviesData_def)
next
  case (JObj kvs)
  show ?thesis
  proof (cases "map_of kvs ''results''")
    case None
    then have "''results'' \<notin> fst ` set kvs"
      by (simp add: map_of_eq_None_iff)
    with None JObj show ?thesis by (simp add: isMoviesData_def)
  next
    case (Some v)
    then have "''results'' \<in> fst ` set kvs"
      by (rule key_of_map_of)
    with Some JObj show ?thesis
      by (cases v) (simp_all add: isMoviesData_def)
  qed
qed (simp_all add: isMoviesData_def)

lemma base_url_spec:
  "truthy i \<and> typeof i = ''object'' \<and> js_in ''base_url'' i \<and>
     typeof (js_get i ''base_url'') = ''string''
   \<longleftrightarrow> (case i of
          JObj images \<Rightarrow> (case map_of images ''base_url'' of Some (JStr s) \<Rightarrow> True | _ \<Rightarrow> False)
        | _ \<Rightarrow> False)"
proof (cases i)
  case (JArr xs)
  have "\<not> js_in ''base_url'' (JArr xs)"
    by (rule js_in_JArr_word) simp_all
  with JArr show ?thesis by simp
next
  case (JObj images)
  show ?thesis
  proof (cases "map_of images ''base_url''")
    case None
    then have "''base_url'' \<notin> fst ` set images"
      by (simp add: map_of_eq_None_iff)
    with None JObj show ?thesis by simp
  next
    case (Some v)
    then have "''base_url'' \<in> fst ` set images"
      by (rule key_of_map_of)
    with Some JObj show ?thesis
      by (cases v) simp_all
  qed
qed simp_all

lemma isMoviesAPIConfiguration_spec:
  "isMoviesAPIConfiguration data = spec_configuration_shape data"
proof (cases data)
  case (JArr xs)
  have "\<not> js_in ''images'' (JArr xs)"
    by (rule js_in_JArr_word) simp_all
  with JArr show ?thesis by (simp add: isMoviesAPIConfiguration_def)
next
  case (JObj kvs)
  show ?thesis
  proof (cases "map_of kvs ''images''")
    case None
    then have "''images'' \<notin> fst ` set kvs"
      by (simp add: map_of_eq_None_iff)
    with None JObj show ?thesis by (simp add: isMoviesAPIConfiguration_def)
  next
    case (Some i)
    then have "''images'' \<in> fst ` set kvs"
      by (rule key_of_map_of)
    with Some JObj base_url_spec [of i] show ?thesis
      by (cases i) (simp_all add: isMoviesAPIConfiguration_def)
  qed
qed (simp_all add: isMoviesAPIConfiguration_def)

lemma language_entry_spec:
  "truthy item \<and> typeof item = ''object'' \<and> js_in ''english_name'' item \<and>
     js_in ''iso_639_1'' item \<and> js_in ''name'' item
   \<longleftrightarrow> spec_has_key ''english_name'' item \<and> spec_has_key ''iso_639_1'' item \<and>
       spec_has_key ''name'' item"
proof (cases item)
  case (JArr xs)
  have "\<not> js_in ''english_name'' (JArr xs)"
    by (rule js_in_JArr_word) simp_all
  with JArr show ?thesis by simp
qed simp_all

lemma isLanguageArray_spec: "isLanguageArray data = spec_language_catalog data"
  by (cases data) (simp_all add: isLanguageArray_def language_entry_spec)

subsection \<open>Movie listings\<close>

text \<open>
  C1. For every endpoint of the enumeration, every language argument and every payload
  that is an object whose \<^verbatim>\<open>results\<close> property is an array, and that does not have both
  keys of the error envelope, \<open>fetchMovies\<close> returns that array itself: the same
  elements in the same order, none added, dropped or changed.
\<close>

theorem fetchMovies_returns_results:
  assumes "net (movies_url apiKey endpoint languageCode) = Inr (JObj kvs)"
    and "map_of kvs ''results'' = Some (JArr xs)"
    and "\<not> (''status_code'' \<in> fst ` set kvs \<and> ''status_message'' \<in> fst ` set kvs)"
  shows "fst (fetchMovies net apiKey endpoint languageCode w) = Inr (JArr xs)"
proof -
  have "\<not> isErrorResponse (JObj kvs)"
    using assms(3) by (simp add: isErrorResponse_JObj)
  moreover have "isMoviesData (JObj kvs)"
    using assms(2) by (rule isMoviesData_JObj)
  moreover have "js_get (JObj kvs) ''results'' = JArr xs"
    using assms(2) by (rule js_get_JObj)
  ultimately show ?thesis
    using fetchMovies_payload [where net = net and data = "JObj kvs" and w = w, OF assms(1)]
    by simp
qed

theorem fetchMovies_returns_results_witness:
  "fst (fetchMovies
          (\<lambda>url. Inr (JObj [(''page'', JNum ''1''),
                             (''results'', JArr [JObj [(''id'', JNum ''20'')], JObj [(''id'', JNum ''10'')]])]))
          ''k'' top_rated (Some ''de-DE'') \<lparr>requests = [], console = []\<rparr>)
   = Inr (JArr [JObj [(''id'', JNum ''20'')], JObj [(''id'', JNum ''10'')]])"
  using fetchMovies_returns_results
    [where net = "\<lambda>url. Inr (JObj [(''page'', JNum ''1''),
                             (''results'', JArr [JObj [(''id'', JNum ''20'')], JObj [(''id'', JNum ''10'')]])])"
        and apiKey = "''k''" and endpoint = top_rated and languageCode = "Some ''de-DE''"
        and kvs = "[(''page'', JNum ''1''), (''results'', JArr [JObj [(''id'', JNum ''20'')], JObj [(''id'', JNum ''10'')]])]"
        and xs = "[JObj [(''id'', JNum ''20'')], JObj [(''id'', JNum ''10'')]]"
        and w = "\<lparr>requests = [], console = []\<rparr>"]
  by simp

subsection \<open>The error envelope\<close>

text \<open>
  C2, as the claim words it, speaks of every payload with the keys \<^verbatim>\<open>status_code\<close> and
  \<^verbatim>\<open>status_message\<close>. The guard tests the keys and not the values, and the message is
  built by a template literal. A status code that is an object with an own property
  \<^verbatim>\<open>toString\<close> has no string: the literal throws a \<^verbatim>\<open>TypeError\<close> before the error
  with the status line exists, and what the functions throw carries neither the status
  code nor the status message.
\<close>

theorem error_envelope_unprintable_counterexample:
  "spec_error_shape (JObj [(''status_code'', JObj [(''toString'', JNum ''1'')]),
                           (''status_message'', JStr ''Invalid API key'')])
   \<and> fst (fetchMovies
            (\<lambda>url. Inr (JObj [(''status_code'', JObj [(''toString'', JNum ''1'')]),
                               (''status_message'', JStr ''Invalid API key'')]))
            ''k'' popular None \<lparr>requests = [], console = []\<rparr>)
     = Inl TypeError
   \<and> fst (fetchConfiguration
            (\<lambda>url. Inr (JObj [(''status_code'', JObj [(''toString'', JNum ''1'')]),
                               (''status_message'', JStr ''Invalid API key'')]))
            ''k'' \<lparr>requests = [], console = []\<rparr>)
     = Inl TypeError"
  by (simp add: spec_error_shape_def fetchMovies_def fetchConfiguration_def fetch_json_def
        isErrorResponse_def throw_status_line_def status_line_def Let_def)

text \<open>
  C2 (amended). For every payload that is an object with the properties
  \<^verbatim>\<open>status_code\<close> and \<^verbatim>\<open>status_message\<close> whose two values the template literal can
  convert to strings (every number, string, boolean and \<^verbatim>\<open>null\<close>, and every array or
  object free of an own \<^verbatim>\<open>toString\<close> property), \<open>fetchMovies\<close> and
  \<open>fetchConfiguration\<close> both throw an \<^verbatim>\<open>Error\<close> whose message is the string of the
  status code, a colon and a blank, and the string of the status message; so the message
  contains both. Nothing is assumed about the other properties of the payload: the
  envelope is recognised first, also where the payload would pass the guard of the
  success shape. The witness is the payload \<^verbatim>\<open>{status_code: 7, status_message: "Invalid
  API key", success: false}\<close>, with the message \<^verbatim>\<open>7: Invalid API key\<close>.
\<close>

theorem error_envelope_message:
  assumes "map_of kvs ''status_code'' = Some code"
    and "map_of kvs ''status_message'' = Some message"
    and "js_to_string code = Inr c"
    and "js_to_string message = Inr m"
    and "net (movies_url apiKey endpoint languageCode) = Inr (JObj kvs)"
    and "net (configuration_url apiKey) = Inr (JObj kvs)"
  shows "fst (fetchMovies net apiKey endpoint languageCode w) = Inl (Error (c @ '': '' @ m))
       \<and> fst (fetchConfiguration net apiKey w') = Inl (Error (c @ '': '' @ m))
       \<and> sublist c (c @ '': '' @ m)
       \<and> sublist m (c @ '': '' @ m)"
proof -
  have "''status_code'' \<in> fst ` set kvs" "''status_message'' \<in> fst ` set kvs"
    using assms(1,2) by (auto intro: key_of_map_of)
  then have e: "isErrorResponse (JObj kvs)"
    by (simp add: isErrorResponse_JObj)
  have l: "throw_status_line (JObj kvs) = Error (c @ '': '' @ m)"
    using assms(1-4) by (simp add: throw_status_line_def status_line_def)
  have "fst (fetchMovies net apiKey endpoint languageCode w) = Inl (throw_status_line (JObj kvs))"
    using fetchMovies_payload [where net = net and data = "JObj kvs" and w = w, OF assms(5)] e
    by simp
  moreover have "fst (fetchConfiguration net apiKey w') = Inl (throw_status_line (JObj kvs))"
    using fetchConfiguration_payload [where net = net and data = "JObj kvs" and w = w', OF assms(6)] e
    by simp
  ultimately show ?thesis
    using sublist_first [of c "'': ''" m] sublist_last [of m c "'': ''"]
    by (simp only: l simp_thms)
qed

theorem error_envelope_message_witness:
  "fst (fetchMovies
          (\<lambda>url. Inr (JObj [(''status_code'', JNum ''7''), (''status_message'', JStr ''Invalid API key''),
                             (''success'', JBool False)]))
          ''k'' popular None \<lparr>requests = [], console = []\<rparr>)
     = Inl (Error ''7: Invalid API key'')
   \<and> fst (fetchConfiguration
          (\<lambda>url. Inr (JObj [(''status_code'', JNum ''7''), (''status_message'', JStr ''Invalid API key''),
                             (''success'', JBool False)]))
          ''k'' \<lparr>requests = [], console = []\<rparr>)
     = Inl (Error ''7: Invalid API key'')
   \<and> sublist ''7'' ''7: Invalid API key''
   \<and> sublist ''Invalid API key'' ''7: Invalid API key''"
  using error_envelope_message
    [where net = "\<lambda>url. Inr (JObj [(''status_code'', JNum ''7''), (''status_message'', JStr ''Invalid API key''),
                             (''success'', JBool False)])"
       and kvs = "[(''status_code'', JNum ''7''), (''status_message'', JStr ''Invalid API key''),
                             (''success'', JBool False)]"
       and code = "JNum ''7''" and message = "JStr ''Invalid API key''"
       and c = "''7''" and m = "''Invalid API key''"
       and apiKey = "''k''" and endpoint = popular and languageCode = None
       and w = "\<lparr>requests = [], console = []\<rparr>" and w' = "\<lparr>requests = [], console = []\<rparr>"]
  by simp

text \<open>
  C9. A payload that is an object with the keys \<^verbatim>\<open>status_code\<close> and
  \<^verbatim>\<open>status_message\<close> is an error for all three functions: whatever the two values
  are (the guard tests the keys only), whether or not \<^verbatim>\<open>success\<close> is there, and also
  when the payload has a valid \<^verbatim>\<open>results\<close> array, each function takes the branch of
  the remote error and throws there, and returns no value. What it throws is the error
  with the status line, or the \<^verbatim>\<open>TypeError\<close> of the template literal when a value has
  no string. The first witness has a string as status code, \<^verbatim>\<open>null\<close> as status
  message, no \<^verbatim>\<open>success\<close> and a \<^verbatim>\<open>results\<close> array that passes \<open>isMoviesData\<close>;
  the second has an object with an own \<^verbatim>\<open>toString\<close> property as status code.
\<close>

theorem error_envelope_takes_precedence:
  assumes "''status_code'' \<in> fst ` set kvs"
    and "''status_message'' \<in> fst ` set kvs"
    and "net (movies_url apiKey endpoint languageCode) = Inr (JObj kvs)"
    and "net (configuration_url apiKey) = Inr (JObj kvs)"
    and "net (languages_url apiKey) = Inr (JObj kvs)"
  shows "isErrorResponse (JObj kvs)
       \<and> fst (fetchMovies net apiKey endpoint languageCode w) = Inl (throw_status_line (JObj kvs))
       \<and> fst (fetchConfiguration net apiKey w) = Inl (throw_status_line (JObj kvs))
       \<and> fst (fetchLanguageCodes net apiKey w) = Inl (throw_status_line (JObj kvs))
       \<and> (throw_status_line (JObj kvs) = TypeError \<or>
            (\<exists>m. throw_status_line (JObj kvs) = Error m \<and> m \<noteq> ''Unexpected response''))
       \<and> (\<forall>v. fst (fetchMovies net apiKey endpoint languageCode w) \<noteq> Inr v)
       \<and> (\<forall>v. fst (fetchConfiguration net apiKey w) \<noteq> Inr v)
       \<and> (\<forall>v. fst (fetchLanguageCodes net apiKey w) \<noteq> Inr v)"
proof -
  have e: "isErrorResponse (JObj kvs)"
    using assms(1,2) by (simp add: isErrorResponse_JObj)
  have "fst (fetchMovies net apiKey endpoint languageCode w) = Inl (throw_status_line (JObj kvs))"
    using fetchMovies_payload [where net = net and data = "JObj kvs" and w = w, OF assms(3)] e
    by simp
  moreover have "fst (fetchConfiguration net apiKey w) = Inl (throw_status_line (JObj kvs))"
    using fetchConfiguration_payload [where net = net and data = "JObj kvs" and w = w, OF assms(4)] e
    by simp
  moreover have "fst (fetchLanguageCodes net apiKey w) = Inl (throw_status_line (JObj kvs))"
    using fetchLanguageCodes_payload [where net = net and data = "JObj kvs" and w = w, OF assms(5)] e
    by simp
  moreover have "throw_status_line (JObj kvs) = TypeError \<or>
            (\<exists>m. throw_status_line (JObj kvs) = Error m \<and> m \<noteq> ''Unexpected response'')"
    using throw_status_line_cases [of "JObj kvs"] throw_status_line_not_unexpected [of "JObj kvs"]
    by auto
  ultimately show ?thesis
    using e by simp
qed

theorem error_envelope_takes_precedence_witness:
  "fst (fetchMovies
          (\<lambda>url. Inr (JObj [(''results'', JArr [JObj [(''id'', JNum ''1'')]]),
                             (''status_code'', JStr ''x''), (''status_message'', JNull)]))
          ''k'' popular None \<lparr>requests = [], console = []\<rparr>)
     = Inl (Error ''x: null'')
   \<and> fst (fetchConfiguration
          (\<lambda>url. Inr (JObj [(''results'', JArr [JObj [(''id'', JNum ''1'')]]),
                             (''status_code'', JStr ''x''), (''status_message'', JNull)]))
          ''k'' \<lparr>requests = [], console = []\<rparr>)
     = Inl (Error ''x: null'')
   \<and> fst (fetchLanguageCodes
          (\<lambda>url. Inr (JObj [(''results'', JArr [JObj [(''id'', JNum ''1'')]]),
                             (''status_code'', JStr ''x''), (''status_message'', JNull)]))
          ''k'' \<lparr>requests = [], console = []\<rparr>)
     = Inl (Error ''x: null'')
   \<and> isMoviesData (JObj [(''results'', JArr [JObj [(''id'', JNum ''1'')]]),
                             (''status_code'', JStr ''x''), (''status_message'', JNull)])
   \<and> fst (fetchLanguageCodes
          (\<lambda>url. Inr (JObj [(''status_code'', JObj [(''toString'', JNum ''1'')]),
                             (''status_message'', JStr ''x'')]))
          ''k'' \<lparr>requests = [], console = []\<rparr>)
     = Inl TypeError"
  using error_envelope_takes_precedence
    [where net = "\<lambda>url. Inr (JObj [(''results'', JArr [JObj [(''id'', JNum ''1'')]]),
                             (''status_code'', JStr ''x''), (''status_message'', JNull)])"
       and kvs = "[(''results'', JArr [JObj [(''id'', JNum ''1'')]]),
                             (''status_code'', JStr ''x''), (''status_message'', JNull)]"
       and apiKey = "''k''" and endpoint = popular and languageCode = None
       and w = "\<lparr>requests = [], console = []\<rparr>"]
    error_envelope_takes_precedence
    [where net = "\<lambda>url. Inr (JObj [(''status_code'', JObj [(''toString'', JNum ''1'')]),
                             (''status_message'', JStr ''x'')])"
       and kvs = "[(''status_code'', JObj [(''toString'', JNum ''1'')]),
                             (''status_message'', JStr ''x'')]"
       and apiKey = "''k''" and endpoint = popular and languageCode = None
       and w = "\<lparr>requests = [], console = []\<rparr>"]
  by (simp add: throw_status_line_def status_line_def isMoviesData_def)

subsection \<open>Classification of a payload\<close>

text \<open>
  C3. Each of the three exported functions puts the payload it received into exactly one
  of three classes before it returns or throws, and the classes are those of the
  specification, stated here with its shapes and not with the guards of the source: the
  error shape (the function throws on the branch of the remote error), the valid shape of
  the function (it returns the value), or neither (it throws \<^verbatim>\<open>Unexpected response\<close>).
  The three cases exclude one another, and what is thrown for an error shape is never
  the \<^verbatim>\<open>Unexpected response\<close> error. A value comes back only for a payload that is no
  error shape and has the whole valid shape, and the value has the shape that was
  checked: the list of \<open>fetchMovies\<close> is an array, the configuration has a string
  under \<^verbatim>\<open>images.base_url\<close>, the codes are an array with one entry for each entry of a
  valid catalogue. In particular a payload with neither \<^verbatim>\<open>results\<close> nor
  \<^verbatim>\<open>status_code\<close>, such as the empty object, makes \<open>fetchMovies\<close> throw
  \<^verbatim>\<open>Unexpected response\<close>; no list is returned.
\<close>

theorem three_way_classification:
  assumes "net (movies_url apiKey endpoint languageCode) = Inr dm"
    and "net (configuration_url apiKey) = Inr dc"
    and "net (languages_url apiKey) = Inr dl"
  shows
    "(spec_error_shape dm \<and>
        fst (fetchMovies net apiKey endpoint languageCode w) = Inl (throw_status_line dm)
      \<or> \<not> spec_error_shape dm \<and> spec_listing_shape dm \<and>
        (\<exists>xs. js_get dm ''results'' = JArr xs \<and>
           fst (fetchMovies net apiKey endpoint languageCode w) = Inr (JArr xs))
      \<or> \<not> spec_error_shape dm \<and> \<not> spec_listing_shape dm \<and>
        fst (fetchMovies net apiKey endpoint languageCode w) = Inl (Error ''Unexpected response''))
   \<and> (spec_error_shape dc \<and>
        fst (fetchConfiguration net apiKey w) = Inl (throw_status_line dc)
      \<or> \<not> spec_error_shape dc \<and> spec_configuration_shape dc \<and>
        fst (fetchConfiguration net apiKey w) = Inr dc
      \<or> \<not> spec_error_shape dc \<and> \<not> spec_configuration_shape dc \<and>
        fst (fetchConfiguration net apiKey w) = Inl (Error ''Unexpected response''))
   \<and> (spec_error_shape dl \<and>
        fst (fetchLanguageCodes net apiKey w) = Inl (throw_status_line dl)
      \<or> \<not> spec_error_shape dl \<and> spec_language_catalog dl \<and>
        (\<exists>xs. dl = JArr xs \<and>
           fst (fetchLanguageCodes net apiKey w) = Inr (JArr (map (\<lambda>item. js_get item ''iso_639_1'') xs)))
      \<or> \<not> spec_error_shape dl \<and> \<not> spec_language_catalog dl \<and>
        fst (fetchLanguageCodes net apiKey w) = Inl (Error ''Unexpected response''))
   \<and> throw_status_line dm \<noteq> Error ''Unexpected response''
   \<and> throw_status_line dc \<noteq> Error ''Unexpected response''
   \<and> throw_status_line dl \<noteq> Error ''Unexpected response''
   \<and> (\<forall>v. fst (fetchMovies net apiKey endpoint languageCode w) = Inr v \<longrightarrow>
          \<not> spec_error_shape dm \<and> spec_listing_shape dm \<and> isArray v)
   \<and> (\<forall>v. fst (fetchConfiguration net apiKey w) = Inr v \<longrightarrow>
          \<not> spec_error_shape dc \<and> spec_configuration_shape v)
   \<and> (\<forall>v. fst (fetchLanguageCodes net apiKey w) = Inr v \<longrightarrow>
          \<not> spec_error_shape dl \<and> spec_language_catalog dl \<and> isArray v)
   \<and> (\<not> spec_has_key ''results'' dm \<and> \<not> spec_has_key ''status_code'' dm \<longrightarrow>
        fst (fetchMovies net apiKey endpoint languageCode w) = Inl (Error ''Unexpected response''))"
proof -
  note m = fetchMovies_payload [where net = net and data = dm and w = w, OF assms(1)]
  note c = fetchConfiguration_payload [where net = net and data = dc and w = w, OF assms(2)]
  note l = fetchLanguageCodes_payload [where net = net and data = dl and w = w, OF assms(3)]
  have listing: "\<exists>xs. js_get dm ''results'' = JArr xs" if "spec_listing_shape dm"
    using that by (cases dm) (auto split: option.splits js.splits)
  have movies: "spec_error_shape dm \<and>
        fst (fetchMovies net apiKey endpoint languageCode w) = Inl (throw_status_line dm)
      \<or> \<not> spec_error_shape dm \<and> spec_listing_shape dm \<and>
        (\<exists>xs. js_get dm ''results'' = JArr xs \<and>
           fst (fetchMovies net apiKey endpoint languageCode w) = Inr (JArr xs))
      \<or> \<not> spec_error_shape dm \<and> \<not> spec_listing_shape dm \<and>
        fst (fetchMovies net apiKey endpoint languageCode w) = Inl (Error ''Unexpected response'')"
    using listing by (auto simp: m isErrorResponse_spec isMoviesData_spec)
  have config: "spec_error_shape dc \<and>
        fst (fetchConfiguration net apiKey w) = Inl (throw_status_line dc)
      \<or> \<not> spec_error_shape dc \<and> spec_configuration_shape dc \<and>
        fst (fetchConfiguration net apiKey w) = Inr dc
      \<or> \<not> spec_error_shape dc \<and> \<not> spec_configuration_shape dc \<and>
        fst (fetchConfiguration net apiKey w) = Inl (Error ''Unexpected response'')"
    by (simp add: c isErrorResponse_spec isMoviesAPIConfiguration_spec)
  have langs: "spec_error_shape dl \<and>
        fst (fetchLanguageCodes net apiKey w) = Inl (throw_status_line dl)
      \<or> \<not> spec_error_shape dl \<and> spec_language_catalog dl \<and>
        (\<exists>xs. dl = JArr xs \<and>
           fst (fetchLanguageCodes net apiKey w) = Inr (JArr (map (\<lambda>item. js_get item ''iso_639_1'') xs)))
      \<or> \<not> spec_error_shape dl \<and> \<not> spec_language_catalog dl \<and>
        fst (fetchLanguageCodes net apiKey w) = Inl (Error ''Unexpected response'')"
  proof (cases "spec_language_catalog dl")
    case True
    then obtain xs where "dl = JArr xs"
      by (cases dl) simp_all
    with True show ?thesis
      by (simp add: l isErrorResponse_spec isLanguageArray_spec)
  next
    case False
    then show ?thesis
      by (simp add: l isErrorResponse_spec isLanguageArray_spec)
  qed
  have empty: "\<not> spec_has_key ''results'' dm \<and> \<not> spec_has_key ''status_code'' dm \<longrightarrow>
        fst (fetchMovies net apiKey endpoint languageCode w) = Inl (Error ''Unexpected response'')"
  proof
    assume a: "\<not> spec_has_key ''results'' dm \<and> \<not> spec_has_key ''status_code'' dm"
    then have "\<not> spec_error_shape dm"
      by (simp add: spec_error_shape_def)
    moreover have "\<not> spec_listing_shape dm"
    proof (cases dm)
      case (JObj kvs)
      with a have "map_of kvs ''results'' = None"
        by (simp add: map_of_eq_None_iff)
      with JObj show ?thesis by simp
    qed simp_all
    ultimately show "fst (fetchMovies net apiKey endpoint languageCode w)
        = Inl (Error ''Unexpected response'')"
      by (simp add: m isErrorResponse_spec isMoviesData_spec)
  qed
  have returned:
    "\<forall>v. fst (fetchMovies net apiKey endpoint languageCode w) = Inr v \<longrightarrow>
          \<not> spec_error_shape dm \<and> spec_listing_shape dm \<and> isArray v"
    "\<forall>v. fst (fetchConfiguration net apiKey w) = Inr v \<longrightarrow>
          \<not> spec_error_shape dc \<and> spec_configuration_shape v"
    "\<forall>v. fst (fetchLanguageCodes net apiKey w) = Inr v \<longrightarrow>
          \<not> spec_error_shape dl \<and> spec_language_catalog dl \<and> isArray v"
    using movies config langs by auto
  from movies config langs empty returned throw_status_line_not_unexpected show ?thesis
    by blast
qed

theorem three_way_classification_witness:
  "fst (fetchMovies (\<lambda>url. Inr (JObj [])) ''k'' upcoming None \<lparr>requests = [], console = []\<rparr>)
     = Inl (Error ''Unexpected response'')
   \<and> fst (fetchConfiguration (\<lambda>url. Inr (JObj [])) ''k'' \<lparr>requests = [], console = []\<rparr>)
     = Inl (Error ''Unexpected response'')
   \<and> fst (fetchLanguageCodes (\<lambda>url. Inr (JObj [])) ''k'' \<lparr>requests = [], console = []\<rparr>)
     = Inl (Error ''Unexpected response'')"
  using three_way_classification
    [where net = "\<lambda>url. Inr (JObj [])" and dm = "JObj []" and dc = "JObj []" and dl = "JObj []"
       and apiKey = "''k''" and endpoint = upcoming and languageCode = None
       and w = "\<lparr>requests = [], console = []\<rparr>"]
  by (simp add: spec_error_shape_def)

subsection \<open>The image configuration\<close>

text \<open>
  C4, as the claim words it, speaks of every payload whose \<^verbatim>\<open>images\<close> object has (or
  lacks) \<^verbatim>\<open>base_url\<close>. The error envelope is tested first, so a payload that also
  carries \<^verbatim>\<open>status_code\<close> and \<^verbatim>\<open>status_message\<close> is answered with the status line
  in both cases: with \<^verbatim>\<open>base_url\<close> present nothing is returned, and with it missing
  the error is not \<^verbatim>\<open>Unexpected response\<close>.
\<close>

theorem fetchConfiguration_error_first_counterexample:
  "js_get (js_get (JObj [(''images'', JObj [(''base_url'', JStr ''http://x/'')]),
                         (''status_code'', JNum ''7''),
                         (''status_message'', JStr ''Invalid API key'')]) ''images'') ''base_url''
     = JStr ''http://x/''
   \<and> fst (fetchConfiguration
            (\<lambda>url. Inr (JObj [(''images'', JObj [(''base_url'', JStr ''http://x/'')]),
                               (''status_code'', JNum ''7''),
                               (''status_message'', JStr ''Invalid API key'')]))
            ''k'' \<lparr>requests = [], console = []\<rparr>)
     = Inl (Error ''7: Invalid API key'')
   \<and> \<not> js_in ''base_url''
         (js_get (JObj [(''images'', JObj []),
                        (''status_code'', JNum ''7''),
                        (''status_message'', JStr ''Invalid API key'')]) ''images'')
   \<and> fst (fetchConfiguration
            (\<lambda>url. Inr (JObj [(''images'', JObj []),
                               (''status_code'', JNum ''7''),
                               (''status_message'', JStr ''Invalid API key'')]))
            ''k'' \<lparr>requests = [], console = []\<rparr>)
     \<noteq> Inl (Error ''Unexpected response'')"
  by (simp add: fetchConfiguration_def fetch_json_def isErrorResponse_def
        throw_status_line_def status_line_def)

text \<open>
  C4 (amended). For a payload that is an object without both keys of the error envelope
  and whose \<^verbatim>\<open>images\<close> property is an object: if that object has a string
  \<^verbatim>\<open>base_url\<close>, \<open>fetchConfiguration\<close> returns the payload, and \<^verbatim>\<open>images.base_url\<close>
  of the returned value is that string; if that object has no \<^verbatim>\<open>base_url\<close>, it throws
  \<^verbatim>\<open>Unexpected response\<close>.
\<close>

theorem fetchConfiguration_base_url:
  assumes "net (configuration_url apiKey) = Inr (JObj kvs)"
    and "\<not> (''status_code'' \<in> fst ` set kvs \<and> ''status_message'' \<in> fst ` set kvs)"
    and "map_of kvs ''images'' = Some (JObj images)"
  shows "(map_of images ''base_url'' = Some (JStr s) \<longrightarrow>
            fst (fetchConfiguration net apiKey w) = Inr (JObj kvs) \<and>
            js_get (js_get (JObj kvs) ''images'') ''base_url'' = JStr s)
       \<and> (''base_url'' \<notin> fst ` set images \<longrightarrow>
            fst (fetchConfiguration net apiKey w) = Inl (Error ''Unexpected response''))"
proof -
  note c = fetchConfiguration_payload [where net = net and data = "JObj kvs" and w = w, OF assms(1)]
  have e: "\<not> isErrorResponse (JObj kvs)"
    using assms(2) by (simp add: isErrorResponse_JObj)
  have i: "js_get (JObj kvs) ''images'' = JObj images" "''images'' \<in> fst ` set kvs"
    using assms(3) by (simp_all add: key_of_map_of)
  have present: "fst (fetchConfiguration net apiKey w) = Inr (JObj kvs) \<and>
            js_get (js_get (JObj kvs) ''images'') ''base_url'' = JStr s"
    if "map_of images ''base_url'' = Some (JStr s)"
  proof -
    have "''base_url'' \<in> fst ` set images"
      using that by (rule key_of_map_of)
    then have "isMoviesAPIConfiguration (JObj kvs)"
      using that i by (simp add: isMoviesAPIConfiguration_def)
    then show ?thesis
      using e that i by (simp add: c)
  qed
  have absent: "fst (fetchConfiguration net apiKey w) = Inl (Error ''Unexpected response'')"
    if "''base_url'' \<notin> fst ` set images"
  proof -
    have "\<not> isMoviesAPIConfiguration (JObj kvs)"
      using that i by (simp add: isMoviesAPIConfiguration_def)
    then show ?thesis
      using e by (simp add: c)
  qed
  from present absent show ?thesis by blast
qed

theorem fetchConfiguration_base_url_witness:
  "fst (fetchConfiguration
          (\<lambda>url. Inr (JObj [(''images'', JObj [(''base_url'', JStr ''http://x/''),
                                                (''poster_sizes'', JArr [JStr ''w92''])])]))
          ''k'' \<lparr>requests = [], console = []\<rparr>)
     = Inr (JObj [(''images'', JObj [(''base_url'', JStr ''http://x/''),
                                     (''poster_sizes'', JArr [JStr ''w92''])])])
   \<and> js_get (js_get (JObj [(''images'', JObj [(''base_url'', JStr ''http://x/''),
                                     (''poster_sizes'', JArr [JStr ''w92''])])]) ''images'') ''base_url''
     = JStr ''http://x/''
   \<and> fst (fetchConfiguration (\<lambda>url. Inr (JObj [(''images'', JObj [])]))
          ''k'' \<lparr>requests = [], console = []\<rparr>)
     = Inl (Error ''Unexpected response'')"
  using fetchConfiguration_base_url
    [where net = "\<lambda>url. Inr (JObj [(''images'', JObj [(''base_url'', JStr ''http://x/''),
                                                (''poster_sizes'', JArr [JStr ''w92''])])])"
       and kvs = "[(''images'', JObj [(''base_url'', JStr ''http://x/''),
                                                (''poster_sizes'', JArr [JStr ''w92''])])]"
       and images = "[(''base_url'', JStr ''http://x/''), (''poster_sizes'', JArr [JStr ''w92''])]"
       and s = "''http://x/''" and apiKey = "''k''" and w = "\<lparr>requests = [], console = []\<rparr>"]
    fetchConfiguration_base_url
    [where net = "\<lambda>url. Inr (JObj [(''images'', JObj [])])"
       and kvs = "[(''images'', JObj [])]" and images = "[]"
       and apiKey = "''k''" and w = "\<lparr>requests = [], console = []\<rparr>"]
  by simp

subsection \<open>The language catalogue\<close>

text \<open>
  C5. For a payload that is an array of objects each having the keys \<^verbatim>\<open>english_name\<close>,
  \<^verbatim>\<open>iso_639_1\<close> and \<^verbatim>\<open>name\<close>, \<open>fetchLanguageCodes\<close> returns the array of the
  \<^verbatim>\<open>iso_639_1\<close> values, one for each entry and in the order of the payload. For a
  payload that is no array and no error envelope it throws \<^verbatim>\<open>Unexpected response\<close>.
\<close>

theorem fetchLanguageCodes_codes:
  assumes "net (languages_url apiKey) = Inr data"
  shows "(data = JArr xs \<and>
          (\<forall>item \<in> set xs. \<exists>kvs. item = JObj kvs \<and>
              ''english_name'' \<in> fst ` set kvs \<and> ''iso_639_1'' \<in> fst ` set kvs \<and>
              ''name'' \<in> fst ` set kvs) \<longrightarrow>
          fst (fetchLanguageCodes net apiKey w)
            = Inr (JArr (map (\<lambda>item. js_get item ''iso_639_1'') xs)))
       \<and> (\<not> isArray data \<and>
          \<not> (\<exists>kvs. data = JObj kvs \<and>
               ''status_code'' \<in> fst ` set kvs \<and> ''status_message'' \<in> fst ` set kvs) \<longrightarrow>
          fst (fetchLanguageCodes net apiKey w) = Inl (Error ''Unexpected response''))"
proof -
  note l = fetchLanguageCodes_payload [where net = net and data = data and w = w, OF assms]
  have valid: "fst (fetchLanguageCodes net apiKey w)
            = Inr (JArr (map (\<lambda>item. js_get item ''iso_639_1'') xs))"
    if d: "data = JArr xs"
      and items: "\<forall>item \<in> set xs. \<exists>kvs. item = JObj kvs \<and>
              ''english_name'' \<in> fst ` set kvs \<and> ''iso_639_1'' \<in> fst ` set kvs \<and>
              ''name'' \<in> fst ` set kvs"
  proof -
    have "\<not> isErrorResponse data"
      using d by (simp add: isErrorResponse_iff)
    moreover have "isLanguageArray data"
    proof -
      have "truthy item \<and> typeof item = ''object'' \<and> js_in ''english_name'' item \<and>
              js_in ''iso_639_1'' item \<and> js_in ''name'' item"
        if "item \<in> set xs" for item
      proof -
        from items that obtain kvs where "item = JObj kvs"
          and "''english_name'' \<in> fst ` set kvs" and "''iso_639_1'' \<in> fst ` set kvs"
          and "''name'' \<in> fst ` set kvs"
          by blast
        then show ?thesis by simp
      qed
      then show ?thesis
        using d by (simp add: isLanguageArray_def list_all_iff)
    qed
    ultimately show ?thesis
      using d by (simp add: l)
  qed
  have other: "fst (fetchLanguageCodes net apiKey w) = Inl (Error ''Unexpected response'')"
    if "\<not> isArray data"
      and "\<not> (\<exists>kvs. data = JObj kvs \<and>
               ''status_code'' \<in> fst ` set kvs \<and> ''status_message'' \<in> fst ` set kvs)"
  proof -
    have "\<not> isErrorResponse data"
      using that(2) by (simp add: isErrorResponse_iff)
    moreover have "\<not> isLanguageArray data"
      using that(1) by (simp add: isLanguageArray_def)
    ultimately show ?thesis
      by (simp add: l)
  qed
  from valid other show ?thesis by blast
qed

theorem fetchLanguageCodes_codes_witness:
  "fst (fetchLanguageCodes
          (\<lambda>url. Inr (JArr [JObj [(''english_name'', JStr ''English''), (''iso_639_1'', JStr ''en''),
                                   (''name'', JStr ''English'')],
                             JObj [(''iso_639_1'', JStr ''de''), (''english_name'', JStr ''German''),
                                   (''name'', JStr ''Deutsch'')]]))
          ''k'' \<lparr>requests = [], console = []\<rparr>)
     = Inr (JArr [JStr ''en'', JStr ''de''])
   \<and> fst (fetchLanguageCodes (\<lambda>url. Inr (JObj [(''languages'', JArr [])]))
          ''k'' \<lparr>requests = [], console = []\<rparr>)
     = Inl (Error ''Unexpected response'')"
  using fetchLanguageCodes_codes
    [where net = "\<lambda>url. Inr (JArr [JObj [(''english_name'', JStr ''English''), (''iso_639_1'', JStr ''en''),
                                   (''name'', JStr ''English'')],
                             JObj [(''iso_639_1'', JStr ''de''), (''english_name'', JStr ''German''),
                                   (''name'', JStr ''Deutsch'')]])"
       and data = "JArr [JObj [(''english_name'', JStr ''English''), (''iso_639_1'', JStr ''en''),
                                   (''name'', JStr ''English'')],
                             JObj [(''iso_639_1'', JStr ''de''), (''english_name'', JStr ''German''),
                                   (''name'', JStr ''Deutsch'')]]"
       and xs = "[JObj [(''english_name'', JStr ''English''), (''iso_639_1'', JStr ''en''),
                                   (''name'', JStr ''English'')],
                             JObj [(''iso_639_1'', JStr ''de''), (''english_name'', JStr ''German''),
                                   (''name'', JStr ''Deutsch'')]]"
       and apiKey = "''k''" and w = "\<lparr>requests = [], console = []\<rparr>"]
    fetchLanguageCodes_codes
    [where net = "\<lambda>url. Inr (JObj [(''languages'', JArr [])])"
       and data = "JObj [(''languages'', JArr [])]"
       and apiKey = "''k''" and w = "\<lparr>requests = [], console = []\<rparr>"]
  by simp

text \<open>
  C10. The empty array passes the guard, since \<^verbatim>\<open>every\<close> holds of no elements, and
  \<open>fetchLanguageCodes\<close> returns the empty array of codes instead of throwing.
\<close>

theorem fetchLanguageCodes_empty_array:
  assumes "net (languages_url apiKey) = Inr (JArr [])"
  shows "isLanguageArray (JArr []) \<and> fst (fetchLanguageCodes net apiKey w) = Inr (JArr [])"
  using fetchLanguageCodes_payload [where net = net and data = "JArr []" and w = w, OF assms]
  by (simp add: isLanguageArray_def isErrorResponse_def string_of_nat.simps)

theorem fetchLanguageCodes_empty_array_witness:
  "fst (fetchLanguageCodes (\<lambda>url. Inr (JArr [])) ''k'' \<lparr>requests = [], console = []\<rparr>)
     = Inr (JArr [])"
  using fetchLanguageCodes_empty_array
    [where net = "\<lambda>url. Inr (JArr [])" and apiKey = "''k''"
       and w = "\<lparr>requests = [], console = []\<rparr>"]
  by simp

subsection \<open>Diagnostic output\<close>

text \<open>
  C6. The claim is that every exported function logs the URL and the payload before it
  throws \<^verbatim>\<open>Unexpected response\<close>. On the empty object all three functions throw that
  error; \<open>fetchMovies\<close> has written the URL and the payload to the console before,
  while \<open>fetchConfiguration\<close> and \<open>fetchLanguageCodes\<close> leave the console empty.
\<close>

theorem unexpected_response_not_logged:
  "fetchConfiguration (\<lambda>url. Inr (JObj [])) ''k'' \<lparr>requests = [], console = []\<rparr>
     = (Inl (Error ''Unexpected response''),
        \<lparr>requests = [''https://api.themoviedb.org/3/configuration?api_key=k''], console = []\<rparr>)
   \<and> fetchLanguageCodes (\<lambda>url. Inr (JObj [])) ''k'' \<lparr>requests = [], console = []\<rparr>
     = (Inl (Error ''Unexpected response''),
        \<lparr>requests = [''https://api.themoviedb.org/3/configuration/languages?api_key=k''],
         console = []\<rparr>)
   \<and> fetchMovies (\<lambda>url. Inr (JObj [])) ''k'' popular None \<lparr>requests = [], console = []\<rparr>
     = (Inl (Error ''Unexpected response''),
        \<lparr>requests = [''https://api.themoviedb.org/3/movie/popular?api_key=k&language=en-US''],
         console = [(''https://api.themoviedb.org/3/movie/popular?api_key=k&language=en-US'',
                     JObj [])]\<rparr>)"
  by (simp add: fetchConfiguration_def fetchLanguageCodes_def fetchMovies_def fetch_json_def
        console_error_def isErrorResponse_def isMoviesAPIConfiguration_def isLanguageArray_def
        isMoviesData_def baseUrl_def Let_def)

subsection \<open>The API key\<close>

text \<open>
  C7, as the claim words it, lets the initialisation succeed for every string. The
  condition of the invariant is \<^verbatim>\<open>envApiKey && typeof envApiKey === "string"\<close>, and
  the empty string is a string that is not truthy: the initialisation fails on it.
\<close>

theorem empty_api_key_counterexample:
  "typeof (JStr []) = ''string''
   \<and> module_init (JStr []) = Inl (InvariantFailed ''VITE_MOVIES_API_KEY key is required'')"
  by (simp add: module_init_def invariant_def)

text \<open>
  C7 (amended). If the environment entry is absent, is no string or is the empty string,
  the initialisation of the module fails with the error of the invariant, so no fetch
  function exists to be called. If it is a string that is not empty, the initialisation
  succeeds with that very string as \<^verbatim>\<open>apiKey\<close>, and it is the \<^verbatim>\<open>api_key\<close> parameter
  of the request of each of the three functions.
\<close>

theorem module_init_api_key:
  "(envApiKey = JUndefined \<or> typeof envApiKey \<noteq> ''string'' \<or> envApiKey = JStr [] \<longrightarrow>
      module_init envApiKey = Inl (InvariantFailed ''VITE_MOVIES_API_KEY key is required''))
   \<and> (s \<noteq> [] \<longrightarrow>
      module_init (JStr s) = Inr s
      \<and> requests (snd (fetchMovies net s endpoint languageCode w))
          = requests w @ [''https://api.themoviedb.org/3/movie/'' @ endpoint_string endpoint
               @ ''?api_key='' @ s @ ''&language=''
               @ (case languageCode of None \<Rightarrow> ''en-US'' | Some l \<Rightarrow> l)]
      \<and> requests (snd (fetchConfiguration net s w))
          = requests w @ [''https://api.themoviedb.org/3/configuration?api_key='' @ s]
      \<and> requests (snd (fetchLanguageCodes net s w))
          = requests w @ [''https://api.themoviedb.org/3/configuration/languages?api_key='' @ s])"
proof -
  have fails: "module_init envApiKey = Inl (InvariantFailed ''VITE_MOVIES_API_KEY key is required'')"
    if "envApiKey = JUndefined \<or> typeof envApiKey \<noteq> ''string'' \<or> envApiKey = JStr []"
    using that by (auto simp: module_init_def invariant_def)
  have loads: "module_init (JStr s) = Inr s" if "s \<noteq> []"
    using that by (simp add: module_init_def invariant_def)
  show ?thesis
    using fails loads
    by (simp add: requests_fetchMovies requests_fetchConfiguration requests_fetchLanguageCodes
          baseUrl_def)
qed

theorem module_init_api_key_witness:
  "module_init JUndefined = Inl (InvariantFailed ''VITE_MOVIES_API_KEY key is required'')
   \<and> module_init (JNum ''42'') = Inl (InvariantFailed ''VITE_MOVIES_API_KEY key is required'')
   \<and> module_init (JStr ''abc123'') = Inr ''abc123''
   \<and> requests (snd (fetchConfiguration (\<lambda>url. Inr (JObj [])) ''abc123''
        \<lparr>requests = [], console = []\<rparr>))
      = [''https://api.themoviedb.org/3/configuration?api_key=abc123'']"
  using module_init_api_key [where envApiKey = JUndefined and s = "''abc123''"
      and net = "\<lambda>url. Inr (JObj [])" and w = "\<lparr>requests = [], console = []\<rparr>"]
    module_init_api_key [where envApiKey = "JNum ''42''" and s = "''abc123''"]
  by simp

subsection \<open>Request URLs\<close>

text \<open>
  C8. The request of \<open>fetchMovies\<close> goes to
  \<^verbatim>\<open>https://api.themoviedb.org/3/movie/{endpoint}?api_key={apiKey}&language={languageCode}\<close>,
  a function of the base URL, the endpoint, the API key and the language alone, with
  \<^verbatim>\<open>en-US\<close> as the language when the caller gives none. \<open>fetchConfiguration\<close> and
  \<open>fetchLanguageCodes\<close> request \<^verbatim>\<open>/configuration\<close> and
  \<^verbatim>\<open>/configuration/languages\<close> with \<^verbatim>\<open>api_key\<close> as the only parameter. Each call
  issues that one request, whatever the remote side answers.
\<close>

theorem request_urls:
  "requests (snd (fetchMovies net apiKey endpoint languageCode w))
     = requests w @ [''https://api.themoviedb.org/3/movie/'' @ endpoint_string endpoint
          @ ''?api_key='' @ apiKey @ ''&language=''
          @ (case languageCode of None \<Rightarrow> ''en-US'' | Some l \<Rightarrow> l)]
   \<and> requests (snd (fetchConfiguration net apiKey w))
     = requests w @ [''https://api.themoviedb.org/3/configuration?api_key='' @ apiKey]
   \<and> requests (snd (fetchLanguageCodes net apiKey w))
     = requests w @ [''https://api.themoviedb.org/3/configuration/languages?api_key='' @ apiKey]"
  by (simp add: requests_fetchMovies requests_fetchConfiguration requests_fetchLanguageCodes
        baseUrl_def)

theorem request_urls_witness:
  "requests (snd (fetchMovies (\<lambda>url. Inl (Rejected ''offline'')) ''KEY'' now_playing None
       \<lparr>requests = [], console = []\<rparr>))
     = [''https://api.themoviedb.org/3/movie/now_playing?api_key=KEY&language=en-US'']
   \<and> requests (snd (fetchMovies (\<lambda>url. Inl (Rejected ''offline'')) ''KEY'' top_rated (Some ''fr-FR'')
       \<lparr>requests = [], console = []\<rparr>))
     = [''https://api.themoviedb.org/3/movie/top_rated?api_key=KEY&language=fr-FR'']
   \<and> requests (snd (fetchConfiguration (\<lambda>url. Inl (Rejected ''offline'')) ''KEY''
       \<lparr>requests = [], console = []\<rparr>))
     = [''https://api.themoviedb.org/3/configuration?api_key=KEY'']
   \<and> requests (snd (fetchLanguageCodes (\<lambda>url. Inl (Rejected ''offline'')) ''KEY''
       \<lparr>requests = [], console = []\<rparr>))
     = [''https://api.themoviedb.org/3/configuration/languages?api_key=KEY'']"
  using request_urls [where net = "\<lambda>url. Inl (Rejected ''offline'')" and apiKey = "''KEY''"
      and endpoint = now_playing and languageCode = None
      and w = "\<lparr>requests = [], console = []\<rparr>"]
    request_urls [where net = "\<lambda>url. Inl (Rejected ''offline'')" and apiKey = "''KEY''"
      and endpoint = top_rated and languageCode = "Some ''fr-FR''"
      and w = "\<lparr>requests = [], console = []\<rparr>"]
  by simp

end
